theory Spec2Isabelle
  imports Main "HOL-Library.AList"
begin

section \<open>JavaScript values\<close>

text \<open>
  Request bodies and provider replies are parsed JSON, so the handlers work on JavaScript
  values. Numbers are restricted to integers (the handlers only test them for truthiness,
  print them and pass them on); the integers that a parsed number can be exactly, and
  that print in plain decimal, are those of magnitude up to \<open>2 ^ 53\<close>.
\<close>

datatype jsval =
    JUndefined
  | JNull
  | JBool bool
  | JNum int
  | JStr string
  | JObj "(string \<times> jsval) list"
  | JArr "jsval list"

text \<open>The truthiness test behind \<open>!v\<close>, \<open>if (v)\<close> and \<open>a || b\<close>.\<close>

fun truthy :: "jsval \<Rightarrow> bool" where
  "truthy JUndefined = False"
| "truthy JNull = False"
| "truthy (JBool b) = b"
| "truthy (JNum n) = (n \<noteq> 0)"
| "truthy (JStr s) = (s \<noteq> [])"
| "truthy (JObj kvs) = True"
| "truthy (JArr vs) = True"

definition js_or :: "jsval \<Rightarrow> jsval \<Rightarrow> jsval" where
  "js_or a b = (if truthy a then a else b)"

text \<open>
  Reading a property \<open>v.k\<close>: a \<open>TypeError\<close> on \<open>undefined\<close> and \<open>null\<close> (\<open>Inl\<close> carries
  \<open>error.message\<close>), the stored value on an object, \<open>undefined\<close> for a name the value does
  not have. The names read by the handlers are not properties of strings, numbers,
  booleans or arrays.
\<close>

definition type_error :: "string \<Rightarrow> string \<Rightarrow> string" where
  "type_error what k =
     ''Cannot read properties of '' @ what @ '' (reading '' @ [CHR 0x27] @ k @ [CHR 0x27] @ '')''"

fun get_prop :: "jsval \<Rightarrow> string \<Rightarrow> string + jsval" where
  "get_prop JUndefined k = Inl (type_error ''undefined'' k)"
| "get_prop JNull k = Inl (type_error ''null'' k)"
| "get_prop (JObj kvs) k = (case map_of kvs k of None \<Rightarrow> Inr JUndefined | Some v \<Rightarrow> Inr v)"
| "get_prop v k = Inr JUndefined"

section \<open>Number formatting\<close>

text \<open>\<open>Number.prototype.toString(radix)\<close> on integers, as used by \<open>Date.now().toString(36)\<close>
  and by the template string that prints an HTTP status.\<close>

definition digit_char :: "nat \<Rightarrow> char" where
  "digit_char d = ''0123456789abcdefghijklmnopqrstuvwxyz'' ! (d mod 36)"

function to_radix :: "nat \<Rightarrow> nat \<Rightarrow> string" where
  "to_radix b n =
     (if b < 2 \<or> n < b then [digit_char n]
      else to_radix b (n div b) @ [digit_char (n mod b)])"
  by pat_completeness auto
termination
  by (relation "measure (\<lambda>(b, n). n)") auto

declare to_radix.simps [simp del]

definition toString :: "nat \<Rightarrow> int \<Rightarrow> string" where
  "toString radix i =
     (if i < 0 then CHR ''-'' # to_radix radix (nat (- i)) else to_radix radix (nat i))"

text \<open>
  The string conversion of a template literal \<open>`${v}`\<close>. A parsed JSON object has no
  callable property, so an object with a \<open>toString\<close> property of its own has no way to a
  primitive and the conversion throws a \<open>TypeError\<close> (\<open>Inl\<close> carries its message); any
  other object converts by \<open>Object.prototype.toString\<close>. An array joins its items with
  commas, \<open>undefined\<close> and \<open>null\<close> items counting as empty.
\<close>

fun to_string :: "jsval \<Rightarrow> string + string"
  and join_items :: "jsval list \<Rightarrow> string + string" where
  "to_string JUndefined = Inr ''undefined''"
| "to_string JNull = Inr ''null''"
| "to_string (JBool b) = Inr (if b then ''true'' else ''false'')"
| "to_string (JNum n) = Inr (toString 10 n)"
| "to_string (JStr s) = Inr s"
| "to_string (JObj kvs) =
     (if map_of kvs ''toString'' = None then Inr ''[object Object]''
      else Inl ''Cannot convert object to primitive value'')"
| "to_string (JArr vs) = join_items vs"
| "join_items [] = Inr []"
| "join_items (v # vs) =
     (case (if v = JUndefined \<or> v = JNull then Inr [] else to_string v) of
        Inl msg \<Rightarrow> Inl msg
      | Inr s \<Rightarrow>
          if vs = [] then Inr s
          else (case join_items vs of Inl msg \<Rightarrow> Inl msg | Inr rest \<Rightarrow> Inr (s @ '','' @ rest)))"

section \<open>Configuration\<close>

text \<open>\<open>process.env\<close>: a variable is a string or absent.\<close>

type_synonym env = "string \<rightharpoonup> string"

text \<open>\<open>process.env.X || fallback\<close>: the fallback replaces an absent and an empty variable.\<close>

definition env_or :: "env \<Rightarrow> string \<Rightarrow> string \<Rightarrow> string" where
  "env_or e x fallback =
     (case e x of None \<Rightarrow> fallback | Some v \<Rightarrow> if v \<noteq> [] then v else fallback)"

record config =
  GITHUB_CLIENT_ID :: string
  GITHUB_CLIENT_SECRET :: string
  FRONTEND_URL :: string
  PORT :: jsval

definition PORT_of :: "env \<Rightarrow> jsval" where
  "PORT_of e =
     (case e ''SERVER_PORT'' of None \<Rightarrow> JNum 3001
      | Some v \<Rightarrow> if v \<noteq> [] then JStr v else JNum 3001)"

text \<open>
  Start-up of \<open>server.js\<close> (lines 12--29): the credentials come from the environment alone
  and the process exits (\<open>None\<close>) when one of them is absent or empty.
\<close>

definition startup :: "env \<Rightarrow> config option" where
  "startup e =
     (case (e ''VITE_GITHUB_CLIENT_ID'', e ''GITHUB_CLIENT_SECRET'') of
        (Some cid, Some sec) \<Rightarrow>
          if cid = [] \<or> sec = [] then None
          else Some \<lparr>GITHUB_CLIENT_ID = cid, GITHUB_CLIENT_SECRET = sec,
                     FRONTEND_URL = env_or e ''FRONTEND_URL'' ''http://localhost:8082'',
                     PORT = PORT_of e\<rparr>
      | _ \<Rightarrow> None)"

text \<open>
  Start-up of the second server file (lines 12--43): each credential falls back to a
  literal of the source; the check that follows only prints a warning, so start-up always
  yields a configuration.
\<close>

definition startup_fallback :: "env \<Rightarrow> config option" where
  "startup_fallback e =
     (let cid = env_or e ''GITHUB_CLIENT_ID'' ''Ov23lipKSR37cO0HXzxv'';
          sec = env_or e ''GITHUB_CLIENT_SECRET'' ''456284e2860027e46caff42bcc08d7e402e58a4e'';
          furl = env_or e ''FRONTEND_URL'' ''https://dev-dashboard-eight.vercel.app''
      in Some \<lparr>GITHUB_CLIENT_ID = cid, GITHUB_CLIENT_SECRET = sec,
                FRONTEND_URL = furl, PORT = PORT_of e\<rparr>)"

section \<open>Responses\<close>

record response =
  res_status :: nat
  res_body :: jsval

text \<open>
  \<open>res.json\<close> sends the JSON serialisation of its argument, and the body of a response is
  what the client parses from it: a property whose value is \<open>undefined\<close> is left out, an
  \<open>undefined\<close> array item becomes \<open>null\<close>, at every depth.
\<close>

fun serialise :: "jsval \<Rightarrow> jsval"
  and serialise_fields :: "(string \<times> jsval) list \<Rightarrow> (string \<times> jsval) list"
  and serialise_items :: "jsval list \<Rightarrow> jsval list" where
  "serialise (JObj kvs) = JObj (serialise_fields kvs)"
| "serialise (JArr vs) = JArr (serialise_items vs)"
| "serialise v = v"
| "serialise_fields [] = []"
| "serialise_fields ((k, v) # kvs) =
     (if v = JUndefined then serialise_fields kvs else (k, serialise v) # serialise_fields kvs)"
| "serialise_items [] = []"
| "serialise_items (v # vs) =
     (if v = JUndefined then JNull else serialise v) # serialise_items vs"

text \<open>The values that \<open>JSON.parse\<close> yields: no \<open>undefined\<close> at any depth, and integers
  within the exact range.\<close>

fun is_json :: "jsval \<Rightarrow> bool"
  and are_json_fields :: "(string \<times> jsval) list \<Rightarrow> bool"
  and are_json :: "jsval list \<Rightarrow> bool" where
  "is_json JUndefined = False"
| "is_json (JNum n) = (\<bar>n\<bar> \<le> 9007199254740992)"
| "is_json (JObj kvs) = are_json_fields kvs"
| "is_json (JArr vs) = are_json vs"
| "is_json v = True"
| "are_json_fields [] = True"
| "are_json_fields ((k, v) # kvs) = (is_json v \<and> are_json_fields kvs)"
| "are_json [] = True"
| "are_json (v # vs) = (is_json v \<and> are_json vs)"

text \<open>\<open>res.json(body)\<close> answers with status 200, \<open>res.status(n).json(body)\<close> with \<open>n\<close>.\<close>

definition res_json :: "nat \<Rightarrow> (string \<times> jsval) list \<Rightarrow> response" where
  "res_json n kvs = \<lparr>res_status = n, res_body = serialise (JObj kvs)\<rparr>"

definition failure :: "nat \<Rightarrow> jsval \<Rightarrow> response" where
  "failure n msg = res_json n [(''error'', msg), (''success'', JBool False)]"

text \<open>Health endpoint of \<open>server.js\<close> (lines 181--187); \<open>isoTime\<close> is the clock reading
  \<open>new Date().toISOString()\<close>.\<close>

definition health_handler :: "config \<Rightarrow> string \<Rightarrow> response" where
  "health_handler cfg isoTime =
     res_json 200
       [(''status'', JStr ''OK''),
        (''timestamp'', JStr isoTime),
        (''oauth_configured'',
           JBool (truthy (JStr (GITHUB_CLIENT_ID cfg)) \<and> truthy (JStr (GITHUB_CLIENT_SECRET cfg))))]"

text \<open>Health endpoint of the second server file (lines 49--60). It is registered before
  the later handler of the same route, so it is the one that answers.\<close>

definition health_handler_env :: "config \<Rightarrow> string \<Rightarrow> response" where
  "health_handler_env cfg isoTime =
     res_json 200
       [(''status'', JStr ''OK''),
        (''timestamp'', JStr isoTime),
        (''environment'', JObj
           [(''hasGitHubClientId'', JBool (truthy (JStr (GITHUB_CLIENT_ID cfg)))),
            (''hasGitHubClientSecret'', JBool (truthy (JStr (GITHUB_CLIENT_SECRET cfg)))),
            (''frontendUrl'', JStr (FRONTEND_URL cfg)),
            (''port'', PORT cfg)])]"

text \<open>The final middleware (404) and the error middleware (500).\<close>

definition not_found_handler :: response where
  "not_found_handler = failure 404 (JStr ''Endpoint not found'')"

definition error_middleware :: response where
  "error_middleware = failure 500 (JStr ''Internal server error'')"

section \<open>The state store\<close>

text \<open>
  \<open>oauthStates\<close> is a \<open>Map\<close> from state strings to \<open>{timestamp, used}\<close> objects. A \<open>Map\<close>
  keeps its keys distinct and in insertion order: it is an association list, \<open>set\<close> is
  \<open>AList.update\<close> (replace in place, else append) and \<open>delete\<close> is \<open>AList.delete\<close>.
\<close>

record state_data =
  timestamp :: int
  used :: bool

type_synonym store = "(string \<times> state_data) list"

text \<open>\<open>oauthStates.get(v)\<close> and \<open>oauthStates.delete(v)\<close> for an arbitrary value: the keys are
  strings, so only a string can hit one.\<close>

fun oauthStates_get :: "store \<Rightarrow> jsval \<Rightarrow> state_data option" where
  "oauthStates_get st (JStr s) = map_of st s"
| "oauthStates_get st v = None"

fun oauthStates_delete :: "store \<Rightarrow> jsval \<Rightarrow> store" where
  "oauthStates_delete st (JStr s) = AList.delete s st"
| "oauthStates_delete st v = st"

text \<open>
  The periodic clean-up (the \<open>setInterval\<close> callback): a loop over the entries that deletes
  every entry with \<open>now - data.timestamp > 600000\<close>. The second argument is what is left
  to visit, the third the map being mutated.
\<close>

fun sweep_loop :: "int \<Rightarrow> (string \<times> state_data) list \<Rightarrow> store \<Rightarrow> store" where
  "sweep_loop now [] m = m"
| "sweep_loop now ((state, d) # rest) m =
     (if now - timestamp d > 600000 then sweep_loop now rest (AList.delete state m)
      else sweep_loop now rest m)"

definition sweep :: "int \<Rightarrow> store \<Rightarrow> store" where
  "sweep now st = sweep_loop now st st"

text \<open>
  State verification of the exchange handler (\<open>server.js\<close> lines 92--101): \<open>None\<close> when the
  state is unknown or already used, otherwise the store with the entry marked used.
\<close>

fun verify_state :: "store \<Rightarrow> jsval \<Rightarrow> store option" where
  "verify_state st (JStr s) =
     (case map_of st s of
        None \<Rightarrow> None
      | Some stateData \<Rightarrow>
          if used stateData then None
          else Some (AList.update s (stateData\<lparr>used := True\<rparr>) st))"
| "verify_state st v = None"

text \<open>A string state passes the verification when it is stored and not marked used.\<close>

definition verifiable :: "store \<Rightarrow> string \<Rightarrow> bool" where
  "verifiable st s = (\<exists>d. map_of st s = Some d \<and> \<not> used d)"

section \<open>The authorize-URL handler\<close>

text \<open>
  \<open>GET /api/oauth/github/url\<close> (\<open>server.js\<close> lines 45--77). Its inputs from the platform:
  \<open>rnd\<close> is \<open>Math.random().toString(36)\<close>, \<open>t1\<close> and \<open>t2\<close> are the two readings of
  \<open>Date.now()\<close>, and \<open>enc\<close> is the serialisation of \<open>URLSearchParams\<close>. Nothing in the
  \<open>try\<close> block throws, so the \<open>catch\<close> branch has no counterpart here.
\<close>

definition new_state :: "string \<Rightarrow> int \<Rightarrow> string" where
  "new_state rnd t1 = drop 2 rnd @ toString 36 t1"

definition oauth_url_handler ::
  "config \<Rightarrow> ((string \<times> string) list \<Rightarrow> string) \<Rightarrow> string \<Rightarrow> int \<Rightarrow> int \<Rightarrow> store
     \<Rightarrow> response \<times> store" where
  "oauth_url_handler cfg enc rnd t1 t2 st =
     (let state = new_state rnd t1;
          st' = AList.update state \<lparr>timestamp = t2, used = False\<rparr> st;
          params = enc [(''client_id'', GITHUB_CLIENT_ID cfg),
                        (''redirect_uri'', FRONTEND_URL cfg @ ''/auth/github/callback''),
                        (''scope'', ''read:user user:email repo''),
                        (''state'', state),
                        (''response_type'', ''code'')];
          authUrl = ''https://github.com/login/oauth/authorize?'' @ params
      in (res_json 200 [(''authUrl'', JStr authUrl), (''state'', JStr state),
                        (''success'', JBool True)],
          st'))"

section \<open>The exchange handler\<close>

text \<open>
  \<open>POST /api/oauth/github/token\<close> (\<open>server.js\<close> lines 80--178; the second server file
  has the same handler at lines 108--206, and the same authorize-URL handler and
  clean-up). The provider is the
  environment: \<open>fetch\<close> either rejects with an error message or resolves to a response
  with its \<open>ok\<close> flag, its \<open>status\<close> and the outcome of \<open>json()\<close> (\<open>Inl\<close> when parsing
  throws). Each endpoint is called at most once per request, so a provider is the pair of
  its replies. The outbound calls are logged with what the handler sends: \<open>TokenCall\<close>
  with the client id, the client secret, the code and the redirect URI of the posted
  body, \<open>UserCall\<close> with the \<open>Authorization\<close> header.
\<close>

record http_response =
  ok :: bool
  status :: nat
  json :: "string + jsval"

datatype fetch_result = Rejected string | Resolved http_response

record provider =
  token_endpoint :: fetch_result
  user_endpoint :: fetch_result

datatype outbound =
    TokenCall string string jsval string
  | UserCall string

text \<open>What the \<open>try\<close> block does: it sends a response or throws an error with a message.\<close>

datatype outcome = Sent response | Thrown string

text \<open>A property read on a value already known not to be \<open>undefined\<close> or \<open>null\<close>.\<close>

definition read_prop :: "jsval \<Rightarrow> string \<Rightarrow> jsval" where
  "read_prop v k = (case get_prop v k of Inl msg \<Rightarrow> JUndefined | Inr x \<Rightarrow> x)"

text \<open>\<open>const { code, state } = req.body\<close>: throws when the body is \<open>undefined\<close> or \<open>null\<close>.\<close>

fun destructure_body :: "jsval \<Rightarrow> string + jsval \<times> jsval" where
  "destructure_body JUndefined =
     Inl (''Cannot destructure property '' @ [CHR 0x27] @ ''code'' @ [CHR 0x27] @ '' of ''
          @ [CHR 0x27] @ ''req.body'' @ [CHR 0x27] @ '' as it is undefined.'')"
| "destructure_body JNull =
     Inl (''Cannot destructure property '' @ [CHR 0x27] @ ''code'' @ [CHR 0x27] @ '' of ''
          @ [CHR 0x27] @ ''req.body'' @ [CHR 0x27] @ '' as it is null.'')"
| "destructure_body body = Inr (read_prop body ''code'', read_prop body ''state'')"

text \<open>
  Lines 139--168: the profile fetch, the removal of the state and the success response.
  The \<open>Authorization\<close> header is the template literal \<open>`Bearer ${tokenData.access_token}`\<close>,
  evaluated before \<open>fetch\<close> is called: when the conversion throws, no call is made.
\<close>

definition exchange_profile ::
  "store \<Rightarrow> jsval \<Rightarrow> jsval \<Rightarrow> provider \<Rightarrow> outbound list \<Rightarrow> outcome \<times> store \<times> outbound list" where
  "exchange_profile st state tokenData prov calls =
     (case to_string (read_prop tokenData ''access_token'') of
        Inl msg \<Rightarrow> (Thrown msg, st, calls)
      | Inr token \<Rightarrow>
          (let calls' = calls @ [UserCall (''Bearer '' @ token)] in
           case user_endpoint prov of
             Rejected msg \<Rightarrow> (Thrown msg, st, calls')
           | Resolved userResponse \<Rightarrow>
               if \<not> ok userResponse then (Thrown ''Failed to verify access token'', st, calls')
               else
                 (case json userResponse of
                    Inl msg \<Rightarrow> (Thrown msg, st, calls')
                  | Inr userData \<Rightarrow>
                      (let st' = oauthStates_delete st state in
                       case get_prop userData ''login'' of
                         Inl msg \<Rightarrow> (Thrown msg, st', calls')
                       | Inr login \<Rightarrow>
                           (Sent (res_json 200
                              [(''access_token'', read_prop tokenData ''access_token''),
                               (''token_type'',
                                  js_or (read_prop tokenData ''token_type'') (JStr ''bearer'')),
                               (''scope'', read_prop tokenData ''scope''),
                               (''user'', JObj
                                  [(''login'', login),
                                   (''name'', read_prop userData ''name''),
                                   (''avatar_url'', read_prop userData ''avatar_url''),
                                   (''id'', read_prop userData ''id'')]),
                               (''success'', JBool True)]),
                            st', calls')))))"

text \<open>Lines 103--137: the call to the token endpoint and the checks on its reply.\<close>

definition exchange_token ::
  "config \<Rightarrow> store \<Rightarrow> jsval \<Rightarrow> jsval \<Rightarrow> provider \<Rightarrow> outcome \<times> store \<times> outbound list" where
  "exchange_token cfg st code state prov =
     (let calls = [TokenCall (GITHUB_CLIENT_ID cfg) (GITHUB_CLIENT_SECRET cfg) code
                     (FRONTEND_URL cfg @ ''/auth/github/callback'')] in
      case token_endpoint prov of
        Rejected msg \<Rightarrow> (Thrown msg, st, calls)
      | Resolved tokenResponse \<Rightarrow>
          if \<not> ok tokenResponse then
            (Thrown (''GitHub API responded with '' @ toString 10 (int (status tokenResponse))),
             st, calls)
          else
            (case json tokenResponse of
               Inl msg \<Rightarrow> (Thrown msg, st, calls)
             | Inr tokenData \<Rightarrow>
                 (case get_prop tokenData ''error'' of
                    Inl msg \<Rightarrow> (Thrown msg, st, calls)
                  | Inr err \<Rightarrow>
                      if truthy err then
                        (Sent (failure 400 (js_or (read_prop tokenData ''error_description'') err)),
                         st, calls)
                      else if \<not> truthy (read_prop tokenData ''access_token'') then
                        (Sent (failure 400 (JStr ''No access token received from GitHub'')),
                         st, calls)
                      else exchange_profile st state tokenData prov calls)))"

text \<open>Lines 82--101: the parameter check and the state verification.\<close>

definition token_handler_try ::
  "config \<Rightarrow> store \<Rightarrow> jsval \<Rightarrow> provider \<Rightarrow> outcome \<times> store \<times> outbound list" where
  "token_handler_try cfg st body prov =
     (case destructure_body body of
        Inl msg \<Rightarrow> (Thrown msg, st, [])
      | Inr (code, state) \<Rightarrow>
          if \<not> truthy code \<or> \<not> truthy state then
            (Sent (failure 400 (JStr ''Missing code or state parameter'')), st, [])
          else
            (case verify_state st state of
               None \<Rightarrow> (Sent (failure 400 (JStr ''Invalid or expired state parameter'')), st, [])
             | Some st1 \<Rightarrow> exchange_token cfg st1 code state prov))"

text \<open>The \<open>catch\<close> block (lines 170--177) turns a thrown error into a 500 response.\<close>

definition token_handler ::
  "config \<Rightarrow> store \<Rightarrow> jsval \<Rightarrow> provider \<Rightarrow> response \<times> store \<times> outbound list" where
  "token_handler cfg st body prov =
     (case token_handler_try cfg st body prov of
        (Sent r, st', calls) \<Rightarrow> (r, st', calls)
      | (Thrown msg, st', calls) \<Rightarrow>
          (res_json 500 [(''error'', JStr ''Failed to exchange code for access token''),
                         (''details'', JStr msg),
                         (''success'', JBool False)],
           st', calls))"

section \<open>Runs of the server\<close>

text \<open>
  The store changes only through the two handlers and the periodic clean-up. A run is a
  list of events. The state verification and the marking are one synchronous block of
  the exchange handler, so no other event comes between them; but the handler awaits the
  provider twice before it deletes the state (line 155), and other events may run in
  between. \<open>ExchangeRequest\<close> is an exchange that runs to its end with no event in
  between; \<open>LateCleanup\<close> is the deletion at line 155 by an exchange that verified its
  state earlier in the run and was suspended since.
\<close>

datatype event =
    UrlRequest string int int
  | ExchangeRequest jsval provider
  | LateCleanup jsval
  | SweepTick int

fun step :: "config \<Rightarrow> ((string \<times> string) list \<Rightarrow> string) \<Rightarrow> event \<Rightarrow> store \<Rightarrow> store" where
  "step cfg enc (UrlRequest rnd t1 t2) st = snd (oauth_url_handler cfg enc rnd t1 t2 st)"
| "step cfg enc (ExchangeRequest body prov) st = fst (snd (token_handler cfg st body prov))"
| "step cfg enc (LateCleanup state) st = oauthStates_delete st state"
| "step cfg enc (SweepTick now) st = sweep now st"

definition run :: "config \<Rightarrow> ((string \<times> string) list \<Rightarrow> string) \<Rightarrow> event list \<Rightarrow> store \<Rightarrow> store" where
  "run cfg enc evs st = fold (step cfg enc) evs st"

text \<open>
  Observations on a run, for a state string \<open>s\<close>: an event issues \<open>s\<close> when the
  authorize-URL handler generates it, and consumes \<open>s\<close> when an exchange request presents
  it and passes the state verification.
\<close>

fun issues :: "string \<Rightarrow> event \<Rightarrow> bool" where
  "issues s (UrlRequest rnd t1 t2) = (new_state rnd t1 = s)"
| "issues s ev = False"

fun consumes :: "store \<Rightarrow> string \<Rightarrow> event \<Rightarrow> bool" where
  "consumes st s (ExchangeRequest body prov) =
     (case destructure_body body of
        Inl msg \<Rightarrow> False
      | Inr (code, state) \<Rightarrow>
          truthy code \<and> truthy state \<and> state = JStr s \<and> verify_state st state \<noteq> None)"
| "consumes st s ev = False"

fun count_consumed ::
  "config \<Rightarrow> ((string \<times> string) list \<Rightarrow> string) \<Rightarrow> string \<Rightarrow> event list \<Rightarrow> store \<Rightarrow> nat" where
  "count_consumed cfg enc s [] st = 0"
| "count_consumed cfg enc s (ev # evs) st =
     (if consumes st s ev then 1 else 0) + count_consumed cfg enc s evs (step cfg enc ev st)"

definition count_issued :: "string \<Rightarrow> event list \<Rightarrow> nat" where
  "count_issued s evs = length (filter (issues s) evs)"

section \<open>Sample data\<close>

definition sample_config :: config where
  "sample_config =
     \<lparr>GITHUB_CLIENT_ID = ''id'', GITHUB_CLIENT_SECRET = ''secret'',
      FRONTEND_URL = ''http://localhost:8082'', PORT = JNum 3001\<rparr>"

definition sample_enc :: "(string \<times> string) list \<Rightarrow> string" where
  "sample_enc kvs = concat (map (\<lambda>(k, v). k @ ''='' @ v @ ''&'') kvs)"

definition sample_body :: jsval where
  "sample_body = JObj [(''code'', JStr ''c1''), (''state'', JStr ''abc'')]"

definition sample_store :: store where
  "sample_store = [(''abc'', \<lparr>timestamp = 1000, used = False\<rparr>)]"

definition token_reply :: http_response where
  "token_reply =
     \<lparr>ok = True, status = 200,
      json = Inr (JObj [(''access_token'', JStr ''gho_1''), (''scope'', JStr ''repo'')])\<rparr>"

definition user_reply :: http_response where
  "user_reply =
     \<lparr>ok = True, status = 200,
      json = Inr (JObj [(''login'', JStr ''octocat''), (''name'', JNull),
                        (''avatar_url'', JStr ''https://a/1''), (''id'', JNum 1)])\<rparr>"

definition error_reply :: http_response where
  "error_reply =
     \<lparr>ok = True, status = 200,
      json = Inr (JObj [(''error'', JStr ''bad_verification_code''),
                        (''error_description'', JStr ''The code passed is incorrect or expired.'')])\<rparr>"

definition good_provider :: provider where
  "good_provider = \<lparr>token_endpoint = Resolved token_reply, user_endpoint = Resolved user_reply\<rparr>"

definition failing_provider :: provider where
  "failing_provider =
     \<lparr>token_endpoint = Rejected ''network down'', user_endpoint = Rejected ''network down''\<rparr>"

definition refusing_provider :: provider where
  "refusing_provider =
     \<lparr>token_endpoint = Resolved error_reply, user_endpoint = Rejected ''network down''\<rparr>"

definition echoing_provider :: provider where
  "echoing_provider =
     \<lparr>token_endpoint = Resolved
        \<lparr>ok = True, status = 200,
         json = Inr (JObj [(''error'', JStr ''incorrect_client_credentials''),
                           (''error_description'', JStr (GITHUB_CLIENT_SECRET sample_config))])\<rparr>,
      user_endpoint = Rejected ''network down''\<rparr>"

section \<open>Properties of the serialisation\<close>

text \<open>Serialising changes nothing in a value that was parsed from JSON.\<close>

lemma serialise_is_json:
  "is_json v \<Longrightarrow> serialise v = v"
  "are_json_fields kvs \<Longrightarrow> serialise_fields kvs = kvs"
  "are_json vs \<Longrightarrow> serialise_items vs = vs"
  by (induction v and kvs and vs rule: serialise_serialise_fields_serialise_items.induct) auto

lemma are_json_fields_lookup:
  "are_json_fields kvs \<Longrightarrow> map_of kvs k = Some v \<Longrightarrow> is_json v"
  by (induction kvs) (auto split: if_splits)

lemma read_prop_is_json:
  assumes "are_json_fields kvs" and "read_prop (JObj kvs) k \<noteq> JUndefined"
  shows "is_json (read_prop (JObj kvs) k)"
  using assms are_json_fields_lookup[of kvs k]
  by (auto simp: read_prop_def split: option.splits)

lemma truthy_defined: "truthy v \<Longrightarrow> v \<noteq> JUndefined"
  by auto

section \<open>Properties of the store operations\<close>

lemma sweep_loop_filter:
  "sweep_loop now xs m =
     filter (\<lambda>(k, d). \<not> (\<exists>e. (k, e) \<in> set xs \<and> now - timestamp e > 600000)) m"
proof (induction xs arbitrary: m)
  case Nil
  then show ?case by simp
next
  case (Cons x xs)
  obtain k d where x: "x = (k, d)" by (cases x)
  show ?case
    unfolding x using Cons.IH
    by (auto simp: AList.delete_eq intro!: filter_cong)
qed

lemma map_of_filter_key:
  "map_of (filter (\<lambda>(k, d). Q k) m) k = (if Q k then map_of m k else None)"
  by (induction m) auto

lemma map_of_sweep_cases:
  "map_of (sweep now st) k = None \<or> map_of (sweep now st) k = map_of st k"
  unfolding sweep_def sweep_loop_filter
  using map_of_filter_key[of "\<lambda>k. \<not> (\<exists>e. (k, e) \<in> set st \<and> now - timestamp e > 600000)" st k]
  by (auto split: if_splits)

lemma sweep_filter:
  assumes "distinct (map fst st)"
  shows "sweep now st = filter (\<lambda>(k, d). \<not> now - timestamp d > 600000) st"
proof -
  have "\<And>k d. (k, d) \<in> set st \<Longrightarrow>
      (\<exists>e. (k, e) \<in> set st \<and> now - timestamp e > 600000) = (now - timestamp d > 600000)"
    using assms by (metis eq_key_imp_eq_value)
  then show ?thesis
    unfolding sweep_def sweep_loop_filter
    by (auto intro!: filter_cong)
qed

lemma map_of_filter_distinct:
  "distinct (map fst m) \<Longrightarrow>
   map_of (filter (\<lambda>(k, d). P d) m) k =
     (case map_of m k of None \<Rightarrow> None | Some d \<Rightarrow> if P d then Some d else None)"
  by (induction m) (auto split: option.splits simp: map_of_eq_None_iff image_iff)



lemma verify_state_Some_iff:
  "(verify_state st v \<noteq> None) = (\<exists>s. v = JStr s \<and> verifiable st s)"
  by (cases v) (auto simp: verifiable_def split: option.splits)

lemma verify_state_str:
  "(\<exists>st'. verify_state st (JStr s) = Some st') = verifiable st s"
  by (auto simp: verifiable_def split: option.splits)

lemma verify_state_result:
  assumes "verify_state st v = Some st'"
  shows "\<exists>s d. v = JStr s \<and> map_of st s = Some d \<and> \<not> used d
           \<and> st' = AList.update s (d\<lparr>used := True\<rparr>) st"
  using assms by (cases v) (auto split: option.splits if_splits)

lemma verify_state_twice:
  assumes "verify_state st v = Some st'"
  shows "verify_state st' v = None"
proof -
  from verify_state_result[OF assms] obtain s d where
    v: "v = JStr s" and st': "st' = AList.update s (d\<lparr>used := True\<rparr>) st" by blast
  show ?thesis by (simp add: v st' update_conv')
qed


section \<open>Store effect of the handlers\<close>

lemma exchange_profile_store:
  assumes "exchange_profile st state tokenData prov calls = (out, st', calls')"
  shows "st' = st \<or> st' = oauthStates_delete st state"
  using assms unfolding exchange_profile_def Let_def
  by (auto split: fetch_result.splits if_splits sum.splits)

lemma exchange_token_store:
  assumes "exchange_token cfg st code state prov = (out, st', calls)"
  shows "st' = st \<or> st' = oauthStates_delete st state"
  using assms exchange_profile_store unfolding exchange_token_def Let_def
  by (auto split: fetch_result.splits if_splits sum.splits)

lemma token_handler_store:
  "fst (snd (token_handler cfg st body prov)) = fst (snd (token_handler_try cfg st body prov))"
  unfolding token_handler_def
  by (auto split: prod.splits outcome.splits)

lemma token_handler_calls:
  "snd (snd (token_handler cfg st body prov)) = snd (snd (token_handler_try cfg st body prov))"
  unfolding token_handler_def
  by (auto split: prod.splits outcome.splits)

lemma consumes_exchange_iff:
  "consumes st s (ExchangeRequest body prov) =
     (\<exists>code. destructure_body body = Inr (code, JStr s) \<and> truthy code \<and> s \<noteq> []
        \<and> verifiable st s)"
  using verify_state_str[of st s]
  by (auto simp del: verify_state.simps split: sum.splits)

lemma not_consumed_store:
  assumes "\<forall>s. \<not> consumes st s (ExchangeRequest body prov)"
  shows "token_handler_try cfg st body prov =
           (fst (token_handler_try cfg st body prov), st, [])"
proof (cases "destructure_body body")
  case (Inl msg)
  then show ?thesis by (simp add: token_handler_try_def)
next
  case (Inr p)
  obtain code state where p: "p = (code, state)" by (cases p)
  show ?thesis
  proof (cases "truthy code \<and> truthy state")
    case False
    then show ?thesis using Inr p by (auto simp: token_handler_try_def)
  next
    case True
    have "verify_state st state = None"
    proof (rule ccontr)
      assume "verify_state st state \<noteq> None"
      then obtain s where "state = JStr s" unfolding verify_state_Some_iff by blast
      with \<open>verify_state st state \<noteq> None\<close> True Inr p
      have "consumes st s (ExchangeRequest body prov)" by simp
      with assms show False by blast
    qed
    then show ?thesis using Inr p True by (simp add: token_handler_try_def)
  qed
qed

lemma consumed_store:
  assumes "consumes st s (ExchangeRequest body prov)"
  shows "\<exists>d. map_of st s = Some d \<and> \<not> used d \<and>
           (fst (snd (token_handler_try cfg st body prov)) = AList.update s (d\<lparr>used := True\<rparr>) st
            \<or> fst (snd (token_handler_try cfg st body prov))
                = AList.delete s (AList.update s (d\<lparr>used := True\<rparr>) st))"
proof -
  from assms obtain code where b: "destructure_body body = Inr (code, JStr s)"
    and t: "truthy code" "s \<noteq> []" and v: "verifiable st s"
    unfolding consumes_exchange_iff by blast
  from v obtain d where d: "map_of st s = Some d" "\<not> used d" by (auto simp: verifiable_def)
  let ?st1 = "AList.update s (d\<lparr>used := True\<rparr>) st"
  have tr: "token_handler_try cfg st body prov = exchange_token cfg ?st1 code (JStr s) prov"
    using b t d by (simp add: token_handler_try_def)
  obtain out st' calls where e: "exchange_token cfg ?st1 code (JStr s) prov = (out, st', calls)"
    by (cases "exchange_token cfg ?st1 code (JStr s) prov") auto
  from exchange_token_store[OF e] have "st' = ?st1 \<or> st' = AList.delete s ?st1" by simp
  then show ?thesis using d tr e by auto
qed

lemma verifiable_update_other:
  "k \<noteq> s \<Longrightarrow> verifiable (AList.update k v st) s = verifiable st s"
  by (simp add: verifiable_def update_conv')

lemma verifiable_delete_other:
  "k \<noteq> s \<Longrightarrow> verifiable (AList.delete k st) s = verifiable st s"
  by (simp add: verifiable_def delete_conv')

lemma not_verifiable_used:
  "\<not> verifiable (AList.update s (d\<lparr>used := True\<rparr>) st) s"
  by (simp add: verifiable_def update_conv')

lemma not_verifiable_deleted:
  "\<not> verifiable (AList.delete s st) s"
  by (simp add: verifiable_def delete_conv')

lemma verifiable_sweep:
  "verifiable (sweep now st) s \<Longrightarrow> verifiable st s"
  using map_of_sweep_cases[of now st s] by (auto simp: verifiable_def)

lemma verifiable_oauthStates_delete:
  "verifiable (oauthStates_delete st v) s \<Longrightarrow> verifiable st s"
proof (cases v)
  case (JStr k)
  assume "verifiable (oauthStates_delete st v) s"
  then show ?thesis
    using JStr not_verifiable_deleted[of k st] verifiable_delete_other[of k s st]
    by (cases "k = s") auto
qed simp_all

lemma consumes_unique:
  assumes "consumes st s ev" "consumes st s' ev"
  shows "s = s'"
  using assms by (cases ev) (auto split: sum.splits)

lemma step_verifiable:
  "(if consumes st s ev then 1 else 0) + (if verifiable (step cfg enc ev st) s then 1 else 0)
     \<le> (if issues s ev then 1 else 0) + (if verifiable st s then (1::nat) else 0)"
proof (cases ev)
  case (UrlRequest rnd t1 t2)
  then show ?thesis
    by (auto simp: oauth_url_handler_def Let_def verifiable_update_other)
next
  case (ExchangeRequest body prov)
  show ?thesis
  proof (cases "\<exists>s'. consumes st s' ev")
    case False
    then have "step cfg enc ev st = st"
      using not_consumed_store[of st body prov cfg] ExchangeRequest
      by (metis fst_conv snd_conv step.simps(2) token_handler_store)
    with False show ?thesis by auto
  next
    case True
    then obtain s' where c: "consumes st s' ev" by blast
    from consumed_store[OF c[unfolded ExchangeRequest], of cfg] obtain d where
      d: "map_of st s' = Some d" "\<not> used d" and
      st': "step cfg enc ev st = AList.update s' (d\<lparr>used := True\<rparr>) st
            \<or> step cfg enc ev st = AList.delete s' (AList.update s' (d\<lparr>used := True\<rparr>) st)"
      unfolding ExchangeRequest by (auto simp: token_handler_store)
    show ?thesis
    proof (cases "s' = s")
      case True
      have "\<not> verifiable (step cfg enc ev st) s"
        using st' True not_verifiable_used not_verifiable_deleted by metis
      moreover have "verifiable st s" using d True by (auto simp: verifiable_def)
      ultimately show ?thesis using ExchangeRequest by simp
    next
      case False
      have "\<not> consumes st s ev" using consumes_unique[OF c] False by blast
      moreover have "verifiable (step cfg enc ev st) s = verifiable st s"
        using st' False by (auto simp: verifiable_update_other verifiable_delete_other)
      ultimately show ?thesis using ExchangeRequest by simp
    qed
  qed
next
  case (LateCleanup state)
  then show ?thesis using verifiable_oauthStates_delete[of st state s] by auto
next
  case (SweepTick now)
  then show ?thesis using verifiable_sweep[of now st s] by auto
qed

lemma count_consumed_bound:
  "count_consumed cfg enc s evs st + (if verifiable (run cfg enc evs st) s then 1 else 0)
     \<le> count_issued s evs + (if verifiable st s then 1 else 0)"
proof (induction evs arbitrary: st)
  case Nil
  then show ?case by (simp add: run_def count_issued_def)
next
  case (Cons ev evs)
  have r: "run cfg enc (ev # evs) st = run cfg enc evs (step cfg enc ev st)"
    by (simp add: run_def)
  have i: "count_issued s (ev # evs) = (if issues s ev then 1 else 0) + count_issued s evs"
    by (simp add: count_issued_def)
  from Cons.IH[of "step cfg enc ev st"] step_verifiable[of st s ev cfg enc]
  show ?case unfolding r i count_consumed.simps by linarith
qed

lemma not_verifiable_run:
  assumes "\<not> verifiable st s" and "\<forall>ev \<in> set evs. \<not> issues s ev"
  shows "\<not> verifiable (run cfg enc evs st) s"
proof -
  have "count_issued s evs = 0" using assms(2) by (simp add: count_issued_def)
  with count_consumed_bound[of cfg enc s evs st] assms(1) show ?thesis
    by (auto split: if_splits)
qed

text \<open>Every store that a run reaches from a store with distinct keys has distinct keys.\<close>

lemma distinct_sweep: "distinct (map fst st) \<Longrightarrow> distinct (map fst (sweep now st))"
  unfolding sweep_def sweep_loop_filter by (rule distinct_map_filter)

lemma distinct_step: "distinct (map fst st) \<Longrightarrow> distinct (map fst (step cfg enc ev st))"
proof (cases ev)
  case (UrlRequest rnd t1 t2)
  assume "distinct (map fst st)"
  then show ?thesis using UrlRequest
    by (simp add: oauth_url_handler_def Let_def distinct_update)
next
  case (ExchangeRequest body prov)
  assume d: "distinct (map fst st)"
  show ?thesis
  proof (cases "\<exists>s. consumes st s ev")
    case False
    then have "step cfg enc ev st = st"
      using not_consumed_store[of st body prov cfg] ExchangeRequest
      by (metis fst_conv snd_conv step.simps(2) token_handler_store)
    then show ?thesis using d by simp
  next
    case True
    then obtain s where "consumes st s (ExchangeRequest body prov)"
      using ExchangeRequest by blast
    from consumed_store[OF this, of cfg] show ?thesis
      using d ExchangeRequest
      by (auto simp: token_handler_store distinct_update distinct_delete)
  qed
next
  case (LateCleanup state)
  assume "distinct (map fst st)"
  then show ?thesis using LateCleanup by (cases state) (simp_all add: distinct_delete)
next
  case (SweepTick now)
  assume "distinct (map fst st)"
  then show ?thesis using SweepTick by (simp add: distinct_sweep)
qed

lemma distinct_run: "distinct (map fst st) \<Longrightarrow> distinct (map fst (run cfg enc evs st))"
  unfolding run_def by (induction evs arbitrary: st) (simp_all add: distinct_step)

section \<open>Status and store of an exchange\<close>




section \<open>Independence from the client secret\<close>

text \<open>The client secret only goes into the logged call to the token endpoint: the response
  and the store of an exchange are the same whatever the secret is.\<close>

lemma exchange_profile_calls_irrelevant:
  "fst (exchange_profile st state tokenData prov calls)
     = fst (exchange_profile st state tokenData prov calls')
   \<and> fst (snd (exchange_profile st state tokenData prov calls))
     = fst (snd (exchange_profile st state tokenData prov calls'))"
  unfolding exchange_profile_def Let_def
  by (simp split: fetch_result.splits sum.splits)

lemma exchange_token_secret_irrelevant:
  "fst (exchange_token (cfg\<lparr>GITHUB_CLIENT_SECRET := x\<rparr>) st code state prov)
     = fst (exchange_token (cfg\<lparr>GITHUB_CLIENT_SECRET := y\<rparr>) st code state prov)
   \<and> fst (snd (exchange_token (cfg\<lparr>GITHUB_CLIENT_SECRET := x\<rparr>) st code state prov))
     = fst (snd (exchange_token (cfg\<lparr>GITHUB_CLIENT_SECRET := y\<rparr>) st code state prov))"
  unfolding exchange_token_def Let_def
  using exchange_profile_calls_irrelevant
  by (simp split: fetch_result.splits sum.splits)

lemma token_handler_try_secret_irrelevant:
  "fst (token_handler_try (cfg\<lparr>GITHUB_CLIENT_SECRET := x\<rparr>) st body prov)
     = fst (token_handler_try (cfg\<lparr>GITHUB_CLIENT_SECRET := y\<rparr>) st body prov)
   \<and> fst (snd (token_handler_try (cfg\<lparr>GITHUB_CLIENT_SECRET := x\<rparr>) st body prov))
     = fst (snd (token_handler_try (cfg\<lparr>GITHUB_CLIENT_SECRET := y\<rparr>) st body prov))"
  unfolding token_handler_try_def
  using exchange_token_secret_irrelevant
  by (simp split: sum.splits prod.splits option.splits)

lemma token_handler_response:
  "fst (token_handler cfg st body prov) =
     (case fst (token_handler_try cfg st body prov) of
        Sent r \<Rightarrow> r
      | Thrown msg \<Rightarrow>
          res_json 500 [(''error'', JStr ''Failed to exchange code for access token''),
                        (''details'', JStr msg), (''success'', JBool False)])"
  unfolding token_handler_def by (simp split: prod.splits outcome.splits)

section \<open>Start-up\<close>

lemma env_or_nonempty: "fallback \<noteq> [] \<Longrightarrow> env_or e x fallback \<noteq> []"
  by (simp add: env_or_def split: option.splits)

lemma startup_requires_credentials:
  "e ''VITE_GITHUB_CLIENT_ID'' = None \<or> e ''GITHUB_CLIENT_SECRET'' = None \<Longrightarrow> startup e = None"
  by (auto simp: startup_def split: option.splits)

text \<open>The equations that evaluate the handlers on concrete inputs.\<close>

lemmas eval_defs =
  sample_config_def sample_enc_def sample_body_def sample_store_def token_reply_def
  user_reply_def error_reply_def good_provider_def failing_provider_def refusing_provider_def
  echoing_provider_def
  token_handler_def token_handler_try_def exchange_token_def exchange_profile_def
  oauth_url_handler_def new_state_def toString_def to_radix.simps digit_char_def
  read_prop_def failure_def res_json_def js_or_def run_def count_issued_def Let_def

section \<open>Single use of a state\<close>

text \<open>
  C1 as stated does not hold: the same state string is consumed twice on a run in which
  the authorize-URL handler generates it a second time (the same random draw at the same
  clock reading) after an exchange has consumed it; the handler overwrites the used entry
  with an unused one.
\<close>

theorem state_string_consumed_twice:
  "count_consumed sample_config sample_enc ''abcrs''
     [UrlRequest ''0.abc'' 1000 1000,
      ExchangeRequest (JObj [(''code'', JStr ''c1''), (''state'', JStr ''abcrs'')]) failing_provider,
      UrlRequest ''0.abc'' 1000 1000,
      ExchangeRequest (JObj [(''code'', JStr ''c2''), (''state'', JStr ''abcrs'')]) good_provider] []
   = 2"
  by (simp add: eval_defs)

text \<open>
  C1, amended. The state check of the exchange handler succeeds if and only if the
  presented value is a string that is stored and not yet marked used; so a state absent
  from the store or already used is always rejected. No stored entry is consumed twice:
  a second check on the store left by a successful one fails, a state that is absent or
  used stays rejected on every run in which the authorize-URL handler does not generate
  the same string again, and on every run of the server from the empty store a state
  string is consumed at most as often as it was issued.
\<close>

theorem state_consumed_at_most_as_issued:
  "(verify_state st v \<noteq> None \<longleftrightarrow> (\<exists>s d. v = JStr s \<and> map_of st s = Some d \<and> \<not> used d))
   \<and> (\<forall>st'. verify_state st v = Some st' \<longrightarrow> verify_state st' v = None)
   \<and> (\<not> verifiable st s \<and> (\<forall>ev \<in> set evs. \<not> issues s ev)
        \<longrightarrow> count_consumed cfg enc s evs st = 0)
   \<and> count_consumed cfg enc s evs [] \<le> count_issued s evs"
proof (intro conjI allI impI)
  show "verify_state st v \<noteq> None \<longleftrightarrow> (\<exists>s d. v = JStr s \<and> map_of st s = Some d \<and> \<not> used d)"
    unfolding verify_state_Some_iff verifiable_def by blast
next
  fix st' assume "verify_state st v = Some st'"
  then show "verify_state st' v = None" by (rule verify_state_twice)
next
  assume a: "\<not> verifiable st s \<and> (\<forall>ev \<in> set evs. \<not> issues s ev)"
  then have "count_issued s evs = 0" by (simp add: count_issued_def)
  with count_consumed_bound[of cfg enc s evs st] a
  show "count_consumed cfg enc s evs st = 0" by (simp split: if_splits)
next
  have "\<not> verifiable [] s" by (simp add: verifiable_def)
  with count_consumed_bound[of cfg enc s evs "[]"]
  show "count_consumed cfg enc s evs [] \<le> count_issued s evs"
    by (simp split: if_splits)
qed

text \<open>
  One state is issued and presented twice; only the first exchange consumes it, although
  that exchange fails at the provider.
\<close>

theorem state_consumed_at_most_as_issued_witness:
  "verify_state sample_store (JStr ''abc'') = Some [(''abc'', \<lparr>timestamp = 1000, used = True\<rparr>)]
   \<and> verify_state [(''abc'', \<lparr>timestamp = 1000, used = True\<rparr>)] (JStr ''abc'') = None
   \<and> \<not> verifiable [(''abc'', \<lparr>timestamp = 1000, used = True\<rparr>)] ''abc''
   \<and> \<not> issues ''abc'' (SweepTick 2000)
   \<and> \<not> issues ''abc'' (ExchangeRequest sample_body good_provider)
   \<and> count_consumed sample_config sample_enc ''abc''
        [SweepTick 2000, ExchangeRequest sample_body good_provider]
        [(''abc'', \<lparr>timestamp = 1000, used = True\<rparr>)] = 0
   \<and> count_consumed sample_config sample_enc ''abcrs''
        [UrlRequest ''0.abc'' 1000 1001,
         ExchangeRequest (JObj [(''code'', JStr ''c1''), (''state'', JStr ''abcrs'')]) failing_provider,
         ExchangeRequest (JObj [(''code'', JStr ''c2''), (''state'', JStr ''abcrs'')]) good_provider] []
       = 1
   \<and> count_issued ''abcrs''
        [UrlRequest ''0.abc'' 1000 1001,
         ExchangeRequest (JObj [(''code'', JStr ''c1''), (''state'', JStr ''abcrs'')]) failing_provider,
         ExchangeRequest (JObj [(''code'', JStr ''c2''), (''state'', JStr ''abcrs'')]) good_provider]
       = 1"
  using state_consumed_at_most_as_issued [of sample_store "JStr ''abc''" "''abcrs''"
      "[UrlRequest ''0.abc'' 1000 1001,
         ExchangeRequest (JObj [(''code'', JStr ''c1''), (''state'', JStr ''abcrs'')]) failing_provider,
         ExchangeRequest (JObj [(''code'', JStr ''c2''), (''state'', JStr ''abcrs'')]) good_provider]"
      sample_config sample_enc]
    state_consumed_at_most_as_issued [of "[(''abc'', \<lparr>timestamp = 1000, used = True\<rparr>)]"
      "JStr ''abc''" "''abc''" "[SweepTick 2000, ExchangeRequest sample_body good_provider]"
      sample_config sample_enc]
  by (simp add: eval_defs verifiable_def sweep_def)

section \<open>Missing parameters\<close>




section \<open>Replay after consumption\<close>

text \<open>
  C3 as stated does not hold: an exchange consumes the state \<open>abcrs\<close> and fails at the
  provider; the authorize-URL handler then generates \<open>abcrs\<close> again, and the next
  exchange that presents it is answered 200.
\<close>

theorem consumed_state_replayed_after_reissue:
  "consumes [(''abcrs'', \<lparr>timestamp = 1000, used = False\<rparr>)] ''abcrs''
     (ExchangeRequest (JObj [(''code'', JStr ''c1''), (''state'', JStr ''abcrs'')]) failing_provider)
   \<and> res_status (fst (token_handler sample_config [(''abcrs'', \<lparr>timestamp = 1000, used = False\<rparr>)]
        (JObj [(''code'', JStr ''c1''), (''state'', JStr ''abcrs'')]) failing_provider)) = 500
   \<and> res_status (fst (token_handler sample_config
        (run sample_config sample_enc [UrlRequest ''0.abc'' 1000 1000]
           (step sample_config sample_enc
              (ExchangeRequest (JObj [(''code'', JStr ''c1''), (''state'', JStr ''abcrs'')])
                 failing_provider)
              [(''abcrs'', \<lparr>timestamp = 1000, used = False\<rparr>)]))
        (JObj [(''code'', JStr ''c2''), (''state'', JStr ''abcrs'')]) good_provider)) = 200"
  by (simp add: eval_defs)

text \<open>
  C3, amended. Once an exchange request has passed the state verification with a state,
  whatever becomes of that exchange afterwards (the token call fails, the token is
  missing, the profile fetch fails, or it succeeds), every later exchange request that
  presents the same state is answered with the invalid-state response, status 400, and
  makes no outbound call, for as long as the authorize-URL handler does not generate the
  very same string again; any other events of the server may come in between.
\<close>

theorem consumed_state_rejected_later:
  assumes "consumes st s (ExchangeRequest body prov)"
    and "\<forall>ev \<in> set evs. \<not> issues s ev"
    and "destructure_body body' = Inr (code', JStr s)" and "truthy code'"
  shows "token_handler cfg (run cfg enc evs (step cfg enc (ExchangeRequest body prov) st)) body' prov'
           = (failure 400 (JStr ''Invalid or expired state parameter''),
              run cfg enc evs (step cfg enc (ExchangeRequest body prov) st), [])"
proof -
  let ?st1 = "step cfg enc (ExchangeRequest body prov) st"
  have "\<not> verifiable ?st1 s"
    using step_verifiable[of st s "ExchangeRequest body prov" cfg enc] assms(1)
    by (simp split: if_splits)
  then have nv: "\<not> verifiable (run cfg enc evs ?st1) s"
    using assms(2) by (rule not_verifiable_run)
  have "verify_state (run cfg enc evs ?st1) (JStr s) = None"
    using nv verify_state_str[of "run cfg enc evs ?st1" s] by auto
  moreover have "s \<noteq> []" using assms(1) unfolding consumes_exchange_iff by blast
  ultimately show ?thesis
    using assms(3,4) by (simp add: token_handler_def token_handler_try_def del: verify_state.simps)
qed

text \<open>
  The first exchange consumes \<open>abc\<close> and fails at the provider (status 500); after another
  authorize request and a clean-up, a retry with \<open>abc\<close> is rejected although the provider
  would now answer.
\<close>

theorem consumed_state_rejected_later_witness:
  "consumes sample_store ''abc'' (ExchangeRequest sample_body failing_provider)
   \<and> res_status (fst (token_handler sample_config sample_store sample_body failing_provider)) = 500
   \<and> \<not> issues ''abc'' (UrlRequest ''0.abc'' 1000 1001)
   \<and> \<not> issues ''abc'' (SweepTick 2000)
   \<and> token_handler sample_config
        (run sample_config sample_enc [UrlRequest ''0.abc'' 1000 1001, SweepTick 2000]
           (step sample_config sample_enc (ExchangeRequest sample_body failing_provider) sample_store))
        (JObj [(''code'', JStr ''c2''), (''state'', JStr ''abc'')]) good_provider
       = (failure 400 (JStr ''Invalid or expired state parameter''),
          [(''abc'', \<lparr>timestamp = 1000, used = True\<rparr>),
           (''abcrs'', \<lparr>timestamp = 1001, used = False\<rparr>)], [])"
proof -
  have c: "consumes sample_store ''abc'' (ExchangeRequest sample_body failing_provider)"
    by (simp add: sample_store_def sample_body_def read_prop_def)
  have i: "\<forall>ev \<in> set [UrlRequest ''0.abc'' 1000 1001, SweepTick 2000]. \<not> issues ''abc'' ev"
    by (simp add: eval_defs)
  have b: "destructure_body (JObj [(''code'', JStr ''c2''), (''state'', JStr ''abc'')])
             = Inr (JStr ''c2'', JStr ''abc'')"
    by (simp add: read_prop_def)
  have t: "truthy (JStr ''c2'')" by simp
  show ?thesis
    using consumed_state_rejected_later [OF c i b t, of sample_config sample_enc good_provider] c i
    by (simp add: eval_defs sweep_def)
qed

section \<open>The clean-up\<close>

text \<open>
  C4. For every store (its keys are distinct, as in every store the server reaches) and
  every sweep time \<open>now\<close>, the clean-up removes exactly the entries with
  \<open>now - timestamp > 600000\<close>, ten minutes in milliseconds, and keeps the others in their
  order; the \<open>used\<close> flag plays no part. So a state older than the limit is absent after
  a sweep even if it was never consumed, and an entry within the limit remains.
\<close>

theorem sweep_removes_exactly_expired:
  assumes "distinct (map fst st)"
  shows "sweep now st = filter (\<lambda>(state, d). \<not> now - timestamp d > 600000) st
         \<and> map_of (sweep now st) k =
             (case map_of st k of
                None \<Rightarrow> None
              | Some d \<Rightarrow> if now - timestamp d > 600000 then None else Some d)"
proof -
  have f: "sweep now st = filter (\<lambda>(state, d). \<not> now - timestamp d > 600000) st"
    using assms by (rule sweep_filter)
  have "map_of (filter (\<lambda>(state, d). \<not> now - timestamp d > 600000) st) k =
          (case map_of st k of
             None \<Rightarrow> None
           | Some d \<Rightarrow> if \<not> now - timestamp d > 600000 then Some d else None)"
    using assms by (rule map_of_filter_distinct)
  then show ?thesis unfolding f by (auto split: option.splits)
qed

text \<open>At time 601000 the entries stamped 999 and 0 go, used or not; the entry stamped 1000
  is exactly ten minutes old and stays.\<close>

theorem sweep_removes_exactly_expired_witness:
  "distinct (map fst [(''a'', \<lparr>timestamp = 999, used = False\<rparr>),
                      (''b'', \<lparr>timestamp = 1000, used = False\<rparr>),
                      (''c'', \<lparr>timestamp = 0, used = True\<rparr>),
                      (''d'', \<lparr>timestamp = 600999, used = True\<rparr>)])
   \<and> sweep 601000 [(''a'', \<lparr>timestamp = 999, used = False\<rparr>),
                   (''b'', \<lparr>timestamp = 1000, used = False\<rparr>),
                   (''c'', \<lparr>timestamp = 0, used = True\<rparr>),
                   (''d'', \<lparr>timestamp = 600999, used = True\<rparr>)]
     = [(''b'', \<lparr>timestamp = 1000, used = False\<rparr>), (''d'', \<lparr>timestamp = 600999, used = True\<rparr>)]
   \<and> map_of (sweep 601000 [(''a'', \<lparr>timestamp = 999, used = False\<rparr>),
                   (''b'', \<lparr>timestamp = 1000, used = False\<rparr>),
                   (''c'', \<lparr>timestamp = 0, used = True\<rparr>),
                   (''d'', \<lparr>timestamp = 600999, used = True\<rparr>)]) ''a'' = None"
proof -
  have d: "distinct (map fst [(''a'', \<lparr>timestamp = 999, used = False\<rparr>),
                      (''b'', \<lparr>timestamp = 1000, used = False\<rparr>),
                      (''c'', \<lparr>timestamp = 0, used = True\<rparr>),
                      (''d'', \<lparr>timestamp = 600999, used = True\<rparr>)])"
    by simp
  show ?thesis
    using sweep_removes_exactly_expired [OF d, of 601000 "''a''"] d
    by simp
qed

section \<open>Issuing a state\<close>

text \<open>
  C5 as stated does not hold: the handler builds the state from the random draw and the
  clock and stores it without looking at the store. When the same draw comes with the
  same clock reading, the string returned is one the store already holds, and the stored
  entry, here one that an exchange has consumed, is overwritten by a fresh unused one.
\<close>

theorem issued_state_collision:
  "run sample_config sample_enc
      [UrlRequest ''0.abc'' 1000 1001,
       ExchangeRequest (JObj [(''code'', JStr ''c1''), (''state'', JStr ''abcrs'')]) failing_provider] []
     = [(''abcrs'', \<lparr>timestamp = 1001, used = True\<rparr>)]
   \<and> oauth_url_handler sample_config sample_enc ''0.abc'' 1000 1002
        [(''abcrs'', \<lparr>timestamp = 1001, used = True\<rparr>)]
     = (res_json 200
          [(''authUrl'', JStr (''https://github.com/login/oauth/authorize?'' @
              sample_enc [(''client_id'', ''id''),
                          (''redirect_uri'', ''http://localhost:8082/auth/github/callback''),
                          (''scope'', ''read:user user:email repo''),
                          (''state'', ''abcrs''),
                          (''response_type'', ''code'')])),
           (''state'', JStr ''abcrs''),
           (''success'', JBool True)],
        [(''abcrs'', \<lparr>timestamp = 1002, used = False\<rparr>)])"
  by (simp add: eval_defs)

text \<open>
  C5, amended. Every call of the authorize-URL handler answers 200 with the state made of
  the digits of the random draw followed by the clock reading in base 36. Afterwards the
  store maps that state to an entry with the current time as timestamp and \<open>used\<close> false,
  and every other key is as before. When the state was not yet a key, the entry is
  appended and nothing else changes; the handler itself does not establish that.
\<close>

theorem issue_records_entry:
  assumes "oauth_url_handler cfg enc rnd t1 t2 st = (r, st')"
  shows "res_status r = 200
         \<and> read_prop (res_body r) ''state'' = JStr (drop 2 rnd @ toString 36 t1)
         \<and> map_of st' (drop 2 rnd @ toString 36 t1) = Some \<lparr>timestamp = t2, used = False\<rparr>
         \<and> (\<forall>k. k \<noteq> drop 2 rnd @ toString 36 t1 \<longrightarrow> map_of st' k = map_of st k)
         \<and> (drop 2 rnd @ toString 36 t1 \<notin> fst ` set st \<longrightarrow>
              st' = st @ [(drop 2 rnd @ toString 36 t1, \<lparr>timestamp = t2, used = False\<rparr>)])"
proof -
  let ?s = "drop 2 rnd @ toString 36 t1"
  have st': "st' = AList.update ?s \<lparr>timestamp = t2, used = False\<rparr> st"
    using assms by (auto simp: oauth_url_handler_def new_state_def Let_def)
  have r: "res_status r = 200" "read_prop (res_body r) ''state'' = JStr ?s"
    using assms
    by (auto simp: oauth_url_handler_def new_state_def Let_def res_json_def read_prop_def)
  have fresh: "?s \<notin> fst ` set st \<Longrightarrow>
      AList.update ?s \<lparr>timestamp = t2, used = False\<rparr> st
        = st @ [(?s, \<lparr>timestamp = t2, used = False\<rparr>)]"
    by (induction st) auto
  show ?thesis
    using r fresh unfolding st' by (simp add: update_conv')
qed

theorem issue_records_entry_witness:
  "snd (oauth_url_handler sample_config sample_enc ''0.abc'' 1000 1001 sample_store)
     = [(''abc'', \<lparr>timestamp = 1000, used = False\<rparr>),
        (''abcrs'', \<lparr>timestamp = 1001, used = False\<rparr>)]
   \<and> drop 2 ''0.abc'' @ toString 36 1000 = ''abcrs''
   \<and> ''abcrs'' \<notin> fst ` set sample_store
   \<and> map_of [(''abc'', \<lparr>timestamp = 1000, used = False\<rparr>),
             (''abcrs'', \<lparr>timestamp = 1001, used = False\<rparr>)] ''abcrs''
       = Some \<lparr>timestamp = 1001, used = False\<rparr>
   \<and> map_of [(''abc'', \<lparr>timestamp = 1000, used = False\<rparr>),
             (''abcrs'', \<lparr>timestamp = 1001, used = False\<rparr>)] ''abc'' = map_of sample_store ''abc''"
proof -
  have h: "oauth_url_handler sample_config sample_enc ''0.abc'' 1000 1001 sample_store
      = (fst (oauth_url_handler sample_config sample_enc ''0.abc'' 1000 1001 sample_store),
         [(''abc'', \<lparr>timestamp = 1000, used = False\<rparr>),
          (''abcrs'', \<lparr>timestamp = 1001, used = False\<rparr>)])"
    by (simp add: eval_defs)
  show ?thesis
    using issue_records_entry [OF h] h
    by (simp add: eval_defs)
qed

section \<open>Removal of a consumed state\<close>




section \<open>The success response\<close>

text \<open>
  C7. When an exchange request presents a code and a stored, unused state, the token
  endpoint answers successfully with a JSON object that carries an access token (one
  that converts to a string, as every string does), a scope and no error, and the user
  endpoint answers successfully with a JSON object that has the four profile fields, the
  handler answers 200 with \<open>success: true\<close>, the provider's \<open>access_token\<close>, the
  provider's \<open>token_type\<close> or \<open>bearer\<close> when the provider omits it, the \<open>scope\<close>, and a
  \<open>user\<close> object with exactly the four fields \<open>login\<close>, \<open>name\<close>, \<open>avatar_url\<close> and \<open>id\<close> of
  the profile. The state is deleted and the two provider calls are the only outbound
  calls.
\<close>

theorem exchange_success_response:
  assumes "destructure_body body = Inr (code, JStr s)" and "truthy code" and "s \<noteq> []"
    and "map_of st s = Some d" and "\<not> used d"
    and "token_endpoint prov = Resolved tokenResponse" and "ok tokenResponse"
    and "json tokenResponse = Inr (JObj tokenData)" and "is_json (JObj tokenData)"
    and "\<not> truthy (read_prop (JObj tokenData) ''error'')"
    and "truthy (read_prop (JObj tokenData) ''access_token'')"
    and "to_string (read_prop (JObj tokenData) ''access_token'') = Inr token"
    and "read_prop (JObj tokenData) ''scope'' \<noteq> JUndefined"
    and "user_endpoint prov = Resolved userResponse" and "ok userResponse"
    and "json userResponse = Inr (JObj userData)" and "is_json (JObj userData)"
    and "read_prop (JObj userData) ''login'' \<noteq> JUndefined"
    and "read_prop (JObj userData) ''name'' \<noteq> JUndefined"
    and "read_prop (JObj userData) ''avatar_url'' \<noteq> JUndefined"
    and "read_prop (JObj userData) ''id'' \<noteq> JUndefined"
  shows "token_handler cfg st body prov =
           (\<lparr>res_status = 200,
             res_body = JObj
               [(''access_token'', read_prop (JObj tokenData) ''access_token''),
                (''token_type'',
                   if truthy (read_prop (JObj tokenData) ''token_type'')
                   then read_prop (JObj tokenData) ''token_type'' else JStr ''bearer''),
                (''scope'', read_prop (JObj tokenData) ''scope''),
                (''user'', JObj
                   [(''login'', read_prop (JObj userData) ''login''),
                    (''name'', read_prop (JObj userData) ''name''),
                    (''avatar_url'', read_prop (JObj userData) ''avatar_url''),
                    (''id'', read_prop (JObj userData) ''id'')]),
                (''success'', JBool True)]\<rparr>,
            AList.delete s (AList.update s (d\<lparr>used := True\<rparr>) st),
            [TokenCall (GITHUB_CLIENT_ID cfg) (GITHUB_CLIENT_SECRET cfg) code
               (FRONTEND_URL cfg @ ''/auth/github/callback''),
             UserCall (''Bearer '' @ token)])"
proof -
  let ?st1 = "AList.update s (d\<lparr>used := True\<rparr>) st"
  let ?t = "\<lambda>k. read_prop (JObj tokenData) k"
  let ?u = "\<lambda>k. read_prop (JObj userData) k"
  let ?tt = "if truthy (?t ''token_type'') then ?t ''token_type'' else JStr ''bearer''"
  have tj: "are_json_fields tokenData" and uj: "are_json_fields userData"
    using assms(9,17) by simp_all
  have at: "?t ''access_token'' \<noteq> JUndefined" using assms(11) by (rule truthy_defined)
  have ttj: "is_json ?tt"
    using read_prop_is_json[OF tj, of "''token_type''"] by (auto dest: truthy_defined)
  note tp = read_prop_is_json[OF tj]
  note up = read_prop_is_json[OF uj]
  have "is_json (JObj
               [(''access_token'', ?t ''access_token''), (''token_type'', ?tt),
                (''scope'', ?t ''scope''),
                (''user'', JObj [(''login'', ?u ''login''), (''name'', ?u ''name''),
                   (''avatar_url'', ?u ''avatar_url''), (''id'', ?u ''id'')]),
                (''success'', JBool True)])"
    using tp[OF at] ttj tp[OF assms(13)]
      up[OF assms(18)] up[OF assms(19)] up[OF assms(20)] up[OF assms(21)]
    by auto
  then have body: "serialise (JObj
               [(''access_token'', ?t ''access_token''), (''token_type'', ?tt),
                (''scope'', ?t ''scope''),
                (''user'', JObj [(''login'', ?u ''login''), (''name'', ?u ''name''),
                   (''avatar_url'', ?u ''avatar_url''), (''id'', ?u ''id'')]),
                (''success'', JBool True)])
            = JObj
               [(''access_token'', ?t ''access_token''), (''token_type'', ?tt),
                (''scope'', ?t ''scope''),
                (''user'', JObj [(''login'', ?u ''login''), (''name'', ?u ''name''),
                   (''avatar_url'', ?u ''avatar_url''), (''id'', ?u ''id'')]),
                (''success'', JBool True)]"
    by (rule serialise_is_json(1))
  have e: "get_prop (JObj tokenData) ''error'' = Inr (?t ''error'')"
    by (simp add: read_prop_def split: option.splits)
  have l: "get_prop (JObj userData) ''login'' = Inr (?u ''login'')"
    by (simp add: read_prop_def split: option.splits)
  have t: "token_handler_try cfg st body prov = exchange_token cfg ?st1 code (JStr s) prov"
    using assms(1-5) by (simp add: token_handler_try_def)
  have x: "exchange_token cfg ?st1 code (JStr s) prov =
      exchange_profile ?st1 (JStr s) (JObj tokenData) prov
        [TokenCall (GITHUB_CLIENT_ID cfg) (GITHUB_CLIENT_SECRET cfg) code
           (FRONTEND_URL cfg @ ''/auth/github/callback'')]"
    using assms(6-8,10,11) e by (simp add: exchange_token_def)
  have p: "exchange_profile ?st1 (JStr s) (JObj tokenData) prov
        [TokenCall (GITHUB_CLIENT_ID cfg) (GITHUB_CLIENT_SECRET cfg) code
           (FRONTEND_URL cfg @ ''/auth/github/callback'')]
      = (Sent \<lparr>res_status = 200, res_body = serialise (JObj
               [(''access_token'', ?t ''access_token''), (''token_type'', ?tt),
                (''scope'', ?t ''scope''),
                (''user'', JObj [(''login'', ?u ''login''), (''name'', ?u ''name''),
                   (''avatar_url'', ?u ''avatar_url''), (''id'', ?u ''id'')]),
                (''success'', JBool True)])\<rparr>,
         AList.delete s ?st1,
         [TokenCall (GITHUB_CLIENT_ID cfg) (GITHUB_CLIENT_SECRET cfg) code
            (FRONTEND_URL cfg @ ''/auth/github/callback''),
          UserCall (''Bearer '' @ token)])"
    using assms(12,14-16) l
    by (simp add: exchange_profile_def res_json_def js_or_def del: serialise.simps)
  show ?thesis
    unfolding token_handler_def t x p body by simp
qed

text \<open>The sample token reply has no \<open>token_type\<close>: the response says \<open>bearer\<close>.\<close>

theorem exchange_success_response_witness:
  "destructure_body sample_body = Inr (JStr ''c1'', JStr ''abc'')
   \<and> map_of sample_store ''abc'' = Some \<lparr>timestamp = 1000, used = False\<rparr>
   \<and> read_prop (JObj [(''access_token'', JStr ''gho_1''), (''scope'', JStr ''repo'')]) ''token_type''
       = JUndefined
   \<and> to_string (JStr ''gho_1'') = Inr ''gho_1''
   \<and> token_handler sample_config sample_store sample_body good_provider =
     (\<lparr>res_status = 200,
       res_body = JObj
         [(''access_token'', JStr ''gho_1''),
          (''token_type'', JStr ''bearer''),
          (''scope'', JStr ''repo''),
          (''user'', JObj
             [(''login'', JStr ''octocat''), (''name'', JNull),
              (''avatar_url'', JStr ''https://a/1''), (''id'', JNum 1)]),
          (''success'', JBool True)]\<rparr>,
      [],
      [TokenCall ''id'' ''secret'' (JStr ''c1'') ''http://localhost:8082/auth/github/callback'',
       UserCall ''Bearer gho_1''])"
proof -
  let ?td = "[(''access_token'', JStr ''gho_1''), (''scope'', JStr ''repo'')]"
  let ?ud = "[(''login'', JStr ''octocat''), (''name'', JNull),
              (''avatar_url'', JStr ''https://a/1''), (''id'', JNum 1)]"
  have b: "destructure_body sample_body = Inr (JStr ''c1'', JStr ''abc'')"
    by (simp add: sample_body_def read_prop_def)
  have c: "truthy (JStr ''c1'')" "''abc'' \<noteq> []" by simp_all
  have m: "map_of sample_store ''abc'' = Some \<lparr>timestamp = 1000, used = False\<rparr>"
    by (simp add: sample_store_def)
  have u: "\<not> used \<lparr>timestamp = 1000, used = False\<rparr>" by simp
  have p1: "token_endpoint good_provider = Resolved token_reply" by (simp add: good_provider_def)
  have p2: "ok token_reply" "json token_reply = Inr (JObj ?td)" "is_json (JObj ?td)"
    by (simp_all add: token_reply_def)
  have p3: "\<not> truthy (read_prop (JObj ?td) ''error'')" "truthy (read_prop (JObj ?td) ''access_token'')"
    "to_string (read_prop (JObj ?td) ''access_token'') = Inr ''gho_1''"
    "read_prop (JObj ?td) ''scope'' \<noteq> JUndefined"
    by (simp_all add: read_prop_def)
  have p4: "user_endpoint good_provider = Resolved user_reply" by (simp add: good_provider_def)
  have p5: "ok user_reply" "json user_reply = Inr (JObj ?ud)" "is_json (JObj ?ud)"
    by (simp_all add: user_reply_def)
  have p6: "read_prop (JObj ?ud) ''login'' \<noteq> JUndefined" "read_prop (JObj ?ud) ''name'' \<noteq> JUndefined"
    "read_prop (JObj ?ud) ''avatar_url'' \<noteq> JUndefined" "read_prop (JObj ?ud) ''id'' \<noteq> JUndefined"
    by (simp_all add: read_prop_def)
  show ?thesis
    using exchange_success_response [OF b c m u p1 p2 p3 p4 p5 p6, of sample_config] b m
    by (simp add: sample_config_def sample_store_def read_prop_def)
qed

section \<open>A provider-level error\<close>

text \<open>
  C8 as stated does not hold: when the token endpoint answers successfully with a body
  that carries an \<open>error\<close> field, the handler answers with status 400, not 500.
\<close>

theorem provider_error_status_counterexample:
  "fst (token_handler sample_config sample_store sample_body refusing_provider)
     = failure 400 (JStr ''The code passed is incorrect or expired.'')
   \<and> res_status (fst (token_handler sample_config sample_store sample_body refusing_provider)) \<noteq> 500"
  by (simp add: eval_defs)

text \<open>
  C8, amended. When the token endpoint answers successfully and the body it returns
  carries a truthy \<open>error\<close> field, the exchange is rejected with a failure response whose
  \<open>error\<close> is the provider's \<open>error_description\<close>, or the \<open>error\<close> field itself when there
  is no description (as the JSON serialisation sends it, which changes nothing in a
  parsed value), and whose HTTP status is 400. The state stays consumed and the user
  endpoint is not called. (Status 500 is what a thrown error gets.)
\<close>

theorem provider_error_answered_400:
  assumes "destructure_body body = Inr (code, JStr s)" and "truthy code" and "s \<noteq> []"
    and "map_of st s = Some d" and "\<not> used d"
    and "token_endpoint prov = Resolved tokenResponse" and "ok tokenResponse"
    and "json tokenResponse = Inr tokenData"
    and "get_prop tokenData ''error'' = Inr err" and "truthy err"
  shows "token_handler cfg st body prov =
           (\<lparr>res_status = 400,
             res_body = JObj
               [(''error'',
                   serialise (if truthy (read_prop tokenData ''error_description'')
                              then read_prop tokenData ''error_description'' else err)),
                (''success'', JBool False)]\<rparr>,
            AList.update s (d\<lparr>used := True\<rparr>) st,
            [TokenCall (GITHUB_CLIENT_ID cfg) (GITHUB_CLIENT_SECRET cfg) code
               (FRONTEND_URL cfg @ ''/auth/github/callback'')])"
proof -
  let ?st1 = "AList.update s (d\<lparr>used := True\<rparr>) st"
  have t: "token_handler_try cfg st body prov = exchange_token cfg ?st1 code (JStr s) prov"
    using assms(1-5) by (simp add: token_handler_try_def)
  have x: "js_or (read_prop tokenData ''error_description'') err \<noteq> JUndefined"
    using assms(10) by (auto simp: js_or_def dest: truthy_defined)
  have "exchange_token cfg ?st1 code (JStr s) prov =
          (Sent (failure 400 (js_or (read_prop tokenData ''error_description'') err)), ?st1,
           [TokenCall (GITHUB_CLIENT_ID cfg) (GITHUB_CLIENT_SECRET cfg) code
              (FRONTEND_URL cfg @ ''/auth/github/callback'')])"
    using assms(6-10) by (simp add: exchange_token_def)
  then show ?thesis
    unfolding token_handler_def t
    using x by (simp add: failure_def res_json_def) (simp add: js_or_def)
qed

theorem provider_error_answered_400_witness:
  "destructure_body sample_body = Inr (JStr ''c1'', JStr ''abc'')
   \<and> map_of sample_store ''abc'' = Some \<lparr>timestamp = 1000, used = False\<rparr>
   \<and> json error_reply = Inr (JObj [(''error'', JStr ''bad_verification_code''),
             (''error_description'', JStr ''The code passed is incorrect or expired.'')])
   \<and> token_handler sample_config sample_store sample_body refusing_provider =
       (\<lparr>res_status = 400,
         res_body = JObj [(''error'', JStr ''The code passed is incorrect or expired.''),
                          (''success'', JBool False)]\<rparr>,
        [(''abc'', \<lparr>timestamp = 1000, used = True\<rparr>)],
        [TokenCall ''id'' ''secret'' (JStr ''c1'') ''http://localhost:8082/auth/github/callback''])"
proof -
  let ?td = "JObj [(''error'', JStr ''bad_verification_code''),
             (''error_description'', JStr ''The code passed is incorrect or expired.'')]"
  have b: "destructure_body sample_body = Inr (JStr ''c1'', JStr ''abc'')"
    by (simp add: sample_body_def read_prop_def)
  have c: "truthy (JStr ''c1'')" "''abc'' \<noteq> []" by simp_all
  have m: "map_of sample_store ''abc'' = Some \<lparr>timestamp = 1000, used = False\<rparr>"
    by (simp add: sample_store_def)
  have u: "\<not> used \<lparr>timestamp = 1000, used = False\<rparr>" by simp
  have p1: "token_endpoint refusing_provider = Resolved error_reply"
    by (simp add: refusing_provider_def)
  have p2: "ok error_reply" "json error_reply = Inr ?td" by (simp_all add: error_reply_def)
  have p3: "get_prop ?td ''error'' = Inr (JStr ''bad_verification_code'')"
    "truthy (JStr ''bad_verification_code'')" by simp_all
  show ?thesis
    using provider_error_answered_400 [OF b c m u p1 p2 p3, of sample_config] b m p2(2)
    by (simp add: sample_config_def sample_store_def read_prop_def)
qed

section \<open>What a failure response reveals\<close>

text \<open>
  C9 as stated does not hold in its second part: the handler forwards the provider's
  \<open>error_description\<close> (and the message of a thrown error) into the failure response as
  it is, so a provider reply that carries the client secret puts it into the response.
\<close>

theorem provider_echo_reveals_secret:
  "fst (token_handler sample_config sample_store sample_body echoing_provider)
     = \<lparr>res_status = 400,
        res_body = JObj [(''error'', JStr (GITHUB_CLIENT_SECRET sample_config)),
                         (''success'', JBool False)]\<rparr>"
  by (simp add: eval_defs)

text \<open>
  C9, amended. An exchange request that presents a state absent from the store and one
  that presents a stored but already used state get the same response: status 400 with
  the same body, whatever the stores, codes and providers are, so the caller cannot tell
  the two cases apart. And the handlers themselves put nothing of the client secret into
  a response: with the request, the store and the provider's replies (the error text of
  a failed call included) held fixed, the response of the exchange handler and of the
  authorize-URL handler is the same whatever the secret is. (The 404 handler and the
  error middleware answer with constants and do not read the configuration.)
\<close>

theorem invalid_state_indistinguishable:
  "(destructure_body b1 = Inr (c1, JStr s1) \<and> truthy c1 \<and> s1 \<noteq> [] \<and> map_of st1 s1 = None
      \<and> destructure_body b2 = Inr (c2, JStr s2) \<and> truthy c2 \<and> s2 \<noteq> []
      \<and> map_of st2 s2 = Some d \<and> used d
    \<longrightarrow> fst (token_handler cfg st1 b1 p1) = fst (token_handler cfg st2 b2 p2)
        \<and> fst (token_handler cfg st1 b1 p1)
            = failure 400 (JStr ''Invalid or expired state parameter''))
   \<and> fst (token_handler (cfg\<lparr>GITHUB_CLIENT_SECRET := x\<rparr>) st body prov)
       = fst (token_handler (cfg\<lparr>GITHUB_CLIENT_SECRET := y\<rparr>) st body prov)
   \<and> fst (oauth_url_handler (cfg\<lparr>GITHUB_CLIENT_SECRET := x\<rparr>) enc rnd t1 t2 st)
       = fst (oauth_url_handler (cfg\<lparr>GITHUB_CLIENT_SECRET := y\<rparr>) enc rnd t1 t2 st)"
proof (intro conjI impI)
  assume a: "destructure_body b1 = Inr (c1, JStr s1) \<and> truthy c1 \<and> s1 \<noteq> [] \<and> map_of st1 s1 = None
      \<and> destructure_body b2 = Inr (c2, JStr s2) \<and> truthy c2 \<and> s2 \<noteq> []
      \<and> map_of st2 s2 = Some d \<and> used d"
  have r1: "fst (token_handler cfg st1 b1 p1)
              = failure 400 (JStr ''Invalid or expired state parameter'')"
    using a by (simp add: token_handler_def token_handler_try_def)
  have r2: "fst (token_handler cfg st2 b2 p2)
              = failure 400 (JStr ''Invalid or expired state parameter'')"
    using a by (simp add: token_handler_def token_handler_try_def)
  show "fst (token_handler cfg st1 b1 p1) = fst (token_handler cfg st2 b2 p2)"
    using r1 r2 by simp
  show "fst (token_handler cfg st1 b1 p1)
          = failure 400 (JStr ''Invalid or expired state parameter'')"
    by (rule r1)
next
  show "fst (token_handler (cfg\<lparr>GITHUB_CLIENT_SECRET := x\<rparr>) st body prov)
       = fst (token_handler (cfg\<lparr>GITHUB_CLIENT_SECRET := y\<rparr>) st body prov)"
    unfolding token_handler_response
    using token_handler_try_secret_irrelevant[of x cfg st body prov y] by simp
next
  show "fst (oauth_url_handler (cfg\<lparr>GITHUB_CLIENT_SECRET := x\<rparr>) enc rnd t1 t2 st)
       = fst (oauth_url_handler (cfg\<lparr>GITHUB_CLIENT_SECRET := y\<rparr>) enc rnd t1 t2 st)"
    by (simp add: oauth_url_handler_def Let_def)
qed

text \<open>The unknown state \<open>zzz\<close> and the used state \<open>abc\<close> get the same answer, and the
  answer of a failing exchange is the same under two different secrets.\<close>

theorem invalid_state_indistinguishable_witness:
  "map_of sample_store ''zzz'' = None
   \<and> map_of [(''abc'', \<lparr>timestamp = 1000, used = True\<rparr>)] ''abc''
       = Some \<lparr>timestamp = 1000, used = True\<rparr>
   \<and> fst (token_handler sample_config sample_store
            (JObj [(''code'', JStr ''c1''), (''state'', JStr ''zzz'')]) good_provider)
       = fst (token_handler sample_config [(''abc'', \<lparr>timestamp = 1000, used = True\<rparr>)]
                sample_body failing_provider)
   \<and> fst (token_handler sample_config sample_store
            (JObj [(''code'', JStr ''c1''), (''state'', JStr ''zzz'')]) good_provider)
       = failure 400 (JStr ''Invalid or expired state parameter'')
   \<and> fst (token_handler (sample_config\<lparr>GITHUB_CLIENT_SECRET := ''s3cr3t''\<rparr>)
            sample_store sample_body failing_provider)
       = fst (token_handler (sample_config\<lparr>GITHUB_CLIENT_SECRET := ''other''\<rparr>)
                sample_store sample_body failing_provider)"
  using invalid_state_indistinguishable [of
      "JObj [(''code'', JStr ''c1''), (''state'', JStr ''zzz'')]" "JStr ''c1''" "''zzz''" sample_store
      sample_body "JStr ''c1''" "''abc''" "[(''abc'', \<lparr>timestamp = 1000, used = True\<rparr>)]"
      "\<lparr>timestamp = 1000, used = True\<rparr>" sample_config good_provider failing_provider
      "''s3cr3t''" sample_store sample_body failing_provider "''other''"]
  by (simp add: eval_defs)

section \<open>Credentials with fallbacks\<close>

text \<open>
  C10. In the server file with fallbacks, start-up yields a configuration for every
  environment, and in it the client id and the client secret are non-empty: a variable
  that is absent (or empty) is replaced by the literal of the source, for the secret too.
  So start-up never stops for missing credentials, and the health endpoint reports
  \<open>hasGitHubClientId\<close> and \<open>hasGitHubClientSecret\<close> as true under every environment.
\<close>

theorem fallback_credentials_always_present:
  "startup_fallback e \<noteq> None
   \<and> (\<forall>cfg. startup_fallback e = Some cfg \<longrightarrow>
        GITHUB_CLIENT_ID cfg \<noteq> [] \<and> GITHUB_CLIENT_SECRET cfg \<noteq> []
        \<and> (e ''GITHUB_CLIENT_ID'' = None \<longrightarrow> GITHUB_CLIENT_ID cfg = ''Ov23lipKSR37cO0HXzxv'')
        \<and> (e ''GITHUB_CLIENT_SECRET'' = None \<longrightarrow>
             GITHUB_CLIENT_SECRET cfg = ''456284e2860027e46caff42bcc08d7e402e58a4e'')
        \<and> read_prop (read_prop (res_body (health_handler_env cfg isoTime)) ''environment'')
             ''hasGitHubClientId'' = JBool True
        \<and> read_prop (read_prop (res_body (health_handler_env cfg isoTime)) ''environment'')
             ''hasGitHubClientSecret'' = JBool True)"
proof (intro conjI allI impI)
  show "startup_fallback e \<noteq> None" by (simp add: startup_fallback_def Let_def)
next
  fix cfg assume s: "startup_fallback e = Some cfg"
  then have cid: "GITHUB_CLIENT_ID cfg = env_or e ''GITHUB_CLIENT_ID'' ''Ov23lipKSR37cO0HXzxv''"
    and sec: "GITHUB_CLIENT_SECRET cfg =
                env_or e ''GITHUB_CLIENT_SECRET'' ''456284e2860027e46caff42bcc08d7e402e58a4e''"
    by (auto simp: startup_fallback_def Let_def)
  show i: "GITHUB_CLIENT_ID cfg \<noteq> []" unfolding cid by (rule env_or_nonempty) simp
  show j: "GITHUB_CLIENT_SECRET cfg \<noteq> []" unfolding sec by (rule env_or_nonempty) simp
  show "read_prop (read_prop (res_body (health_handler_env cfg isoTime)) ''environment'')
             ''hasGitHubClientId'' = JBool True"
    using i by (simp add: health_handler_env_def res_json_def read_prop_def)
  show "read_prop (read_prop (res_body (health_handler_env cfg isoTime)) ''environment'')
             ''hasGitHubClientSecret'' = JBool True"
    using j by (simp add: health_handler_env_def res_json_def read_prop_def)
  { assume "e ''GITHUB_CLIENT_ID'' = None"
    then show "GITHUB_CLIENT_ID cfg = ''Ov23lipKSR37cO0HXzxv''"
      unfolding cid by (simp add: env_or_def) }
  { assume "e ''GITHUB_CLIENT_SECRET'' = None"
    then show "GITHUB_CLIENT_SECRET cfg = ''456284e2860027e46caff42bcc08d7e402e58a4e''"
      unfolding sec by (simp add: env_or_def) }
qed

text \<open>With an empty environment both credentials are the literals of the source; the
  first server file stops on the same environment.\<close>

theorem fallback_credentials_always_present_witness:
  "startup_fallback Map.empty =
     Some \<lparr>GITHUB_CLIENT_ID = ''Ov23lipKSR37cO0HXzxv'',
           GITHUB_CLIENT_SECRET = ''456284e2860027e46caff42bcc08d7e402e58a4e'',
           FRONTEND_URL = ''https://dev-dashboard-eight.vercel.app'', PORT = JNum 3001\<rparr>
   \<and> read_prop (read_prop (res_body (health_handler_env
         \<lparr>GITHUB_CLIENT_ID = ''Ov23lipKSR37cO0HXzxv'',
           GITHUB_CLIENT_SECRET = ''456284e2860027e46caff42bcc08d7e402e58a4e'',
           FRONTEND_URL = ''https://dev-dashboard-eight.vercel.app'', PORT = JNum 3001\<rparr>
         ''2026-11-02T00:00:00.000Z'')) ''environment'') ''hasGitHubClientSecret'' = JBool True
   \<and> startup Map.empty = None"
  using fallback_credentials_always_present [of Map.empty "''2026-11-02T00:00:00.000Z''"]
    startup_requires_credentials [of Map.empty]
  by (simp add: startup_fallback_def env_or_def PORT_of_def)

end
